theory Spec2Isabelle
  imports Complex_Main "HOL-Library.Log_Nat"
begin

section \<open>K-point utilities of quacc (\<open>src/quacc/utils/kpts.py\<close>)\<close>

text \<open>
  The module holds two functions: \<open>convert_pmg_kpts\<close>, which resolves a policy of
  named pymatgen k-point schemes, and \<open>kspacing_to_grid\<close>, which turns a spacing in
  reciprocal space into a mesh. Both are embedded below as HOL functions. What the
  module gets from pymatgen, ASE and numpy is made explicit:
  \<^item> an exception is a value: results are sums, \<open>Inl\<close> carrying the exception;
  \<^item> the pymatgen entry points the module calls are fields of a record that the
    embedded function receives as its first argument; each of them may raise;
  \<^item> a finite \<open>float\<close> is the real number it denotes; the quotient of two of them
    is the IEEE 754 binary64 quotient: the real quotient rounded to the nearest
    representable number, ties to even, which is \<open>inf\<close> from \<open>2 ^ 1024\<close> on;
  \<^item> Python \<open>int\<close>s are \<open>int\<close>; \<open>np.prod\<close> of a mesh multiplies in numpy's default
    integer, 64 bits wide and signed, and wraps around.
\<close>

subsection \<open>Exceptions\<close>

datatype error =
    UnsupportedScheme
      \<comment> \<open>\<open>ValueError("Unsupported k-point generation scheme: ...")\<close>, line 89\<close>
  | UnsetBest
      \<comment> \<open>\<open>AttributeError\<close>: \<open>max_pmg_kpts\<close> is still \<open>None\<close> at line 100\<close>
  | KeyError
      \<comment> \<open>\<open>pmg_kpts["line_density"]\<close> on a mapping without that key\<close>
  | EmptyStack
      \<comment> \<open>\<open>ValueError\<close> of \<open>np.stack\<close> on an empty list\<close>
  | UnpackError
      \<comment> \<open>\<open>ValueError\<close> of \<open>n_x, n_y, n_z = ...\<close> on other than three values\<close>
  | NonFiniteToInt
      \<comment> \<open>\<open>OverflowError\<close> of \<open>int(inf)\<close> or \<open>ValueError\<close> of \<open>int(nan)\<close>\<close>
  | IndexError
      \<comment> \<open>list assignment index out of range\<close>
  | External string
      \<comment> \<open>an exception raised inside a pymatgen call, passed on unchanged\<close>

text \<open>The result of a call into pymatgen: the exception it raised, or its value.\<close>

type_synonym 'a ext = "string + 'a"

definition propagate :: "'a ext \<Rightarrow> error + 'a" where
  "propagate r = (case r of Inl e \<Rightarrow> Inl (External e) | Inr x \<Rightarrow> Inr x)"

subsection \<open>Data\<close>

text \<open>
  A value of the policy mapping \<open>PmgKpts\<close>: a \<open>float\<close> (\<open>line_density\<close>, \<open>kppvol\<close>,
  \<open>kppa\<close>) or a sequence of floats (\<open>length_densities\<close>).
\<close>

datatype pval = Num real | Seq "real list"

text \<open>
  The mapping itself is a Python \<open>dict\<close>: its items in insertion order, the keys
  distinct. \<open>dict_get\<close> is \<open>d.get(k)\<close>, \<open>dict_getitem\<close> is \<open>d[k]\<close>.
\<close>

type_synonym PmgKpts = "(string \<times> pval) list"

definition dict_get :: "PmgKpts \<Rightarrow> string \<Rightarrow> pval option" where
  "dict_get d k = map_of d k"

definition dict_getitem :: "PmgKpts \<Rightarrow> string \<Rightarrow> error + pval" where
  "dict_getitem d k = (case map_of d k of None \<Rightarrow> Inl KeyError | Some v \<Rightarrow> Inr v)"

text \<open>
  Truth value of what \<open>d.get(k)\<close> returns: \<open>None\<close>, a zero float and an empty
  sequence are false.
\<close>

fun truthy :: "pval option \<Rightarrow> bool" where
  "truthy None = False"
| "truthy (Some (Num x)) = (x \<noteq> 0)"
| "truthy (Some (Seq xs)) = (xs \<noteq> [])"

text \<open>
  A pymatgen \<open>Kpoints\<close> object, as far as the module reads it: \<open>kpts0\<close> is
  \<open>.kpts[0]\<close>, the one row that the automatic generators write, and \<open>style_name\<close> is
  \<open>.style.name\<close>. The class defines neither \<open>__bool__\<close> nor \<open>__len__\<close>, so an
  object of it is true.
\<close>

record Kpoints =
  kpts0 :: "int list"
  style_name :: string

type_synonym vec3 = "real \<times> real \<times> real"

text \<open>
  The first component of what \<open>convert_pmg_kpts\<close> returns: the stacked points of the
  path in line mode, a list of integers in density mode.
\<close>

datatype kpts_result = KPath "vec3 list" | KGrid "int list"

text \<open>
  The entry points of pymatgen that the module calls. \<open>'at\<close> is ASE's \<open>Atoms\<close>,
  \<open>'st\<close> pymatgen's \<open>Structure\<close>, \<open>'kp\<close> a \<open>HighSymmKpath\<close> object.
  \<open>site_magmom\<close> is \<open>struct.site_properties.get("magmom", None)\<close>;
  \<open>HighSymmKpath\<close> takes the structure, \<open>path_type\<close> and \<open>has_magmoms\<close>;
  \<open>get_kpoints\<close> takes the object, \<open>line_density\<close> and \<open>coords_are_cartesian\<close>
  and returns the points and their labels; the three generators take the structure,
  the value of the key and \<open>force_gamma\<close>.
\<close>

record ('at, 'st, 'kp) pymatgen =
  get_structure :: "'at \<Rightarrow> 'st"
  site_magmom :: "'st \<Rightarrow> real list option"
  HighSymmKpath :: "'st \<Rightarrow> string \<Rightarrow> bool \<Rightarrow> 'kp ext"
  get_kpoints :: "'kp \<Rightarrow> pval \<Rightarrow> bool \<Rightarrow> (vec3 list \<times> string list) ext"
  automatic_density_by_vol :: "'st \<Rightarrow> pval \<Rightarrow> bool \<Rightarrow> Kpoints ext"
  automatic_density :: "'st \<Rightarrow> pval \<Rightarrow> bool \<Rightarrow> Kpoints ext"
  automatic_density_by_lengths :: "'st \<Rightarrow> pval \<Rightarrow> bool \<Rightarrow> Kpoints ext"

subsection \<open>numpy and string helpers\<close>

definition np_any :: "real list option \<Rightarrow> bool" where
  "np_any m = (case m of None \<Rightarrow> False | Some xs \<Rightarrow> list_ex (\<lambda>x. x \<noteq> 0) xs)"

definition np_stack :: "vec3 list \<Rightarrow> error + vec3 list" where
  "np_stack ks = (if ks = [] then Inl EmptyStack else Inr ks)"

text \<open>
  \<open>np.prod\<close> of a sequence of Python integers. numpy first makes an array of them:
  of signed 64-bit integers when every entry fits, of unsigned 64-bit integers when
  an entry does not fit but all are non-negative and below \<open>2 ^ 64\<close>, and of Python
  objects when an entry is larger still. The product of a 64-bit array wraps around
  without an error; the product of an array of objects is exact. The entries of a
  mesh are numbers of divisions, so that a negative entry next to one of \<open>2 ^ 63\<close>
  or more, which the last case also takes in, does not occur.
\<close>

definition int64 :: "int \<Rightarrow> int" where
  "int64 n = (n + 2 ^ 63) mod 2 ^ 64 - 2 ^ 63"

definition fits_int64 :: "int \<Rightarrow> bool" where
  "fits_int64 n = (- (2 ^ 63) \<le> n \<and> n < 2 ^ 63)"

definition fits_uint64 :: "int \<Rightarrow> bool" where
  "fits_uint64 n = (0 \<le> n \<and> n < 2 ^ 64)"

definition np_prod :: "int list \<Rightarrow> int" where
  "np_prod xs =
     (if list_all fits_int64 xs then int64 (prod_list xs)
      else if list_all fits_uint64 xs then prod_list xs mod 2 ^ 64
      else prod_list xs)"

text \<open>\<open>int(k)\<close> of an integer.\<close>

definition int_of :: "int \<Rightarrow> int" where
  "int_of k = k"

text \<open>
  \<open>str.lower()\<close> on ASCII text: the letters \<open>A\<close> to \<open>Z\<close> move to \<open>a\<close> to \<open>z\<close>,
  every other character stays.
\<close>

definition lower_char :: "char \<Rightarrow> char" where
  "lower_char c =
     (case map_of (zip ''ABCDEFGHIJKLMNOPQRSTUVWXYZ'' ''abcdefghijklmnopqrstuvwxyz'') c of
        None \<Rightarrow> c
      | Some d \<Rightarrow> d)"

definition lower :: "string \<Rightarrow> string" where
  "lower s = map lower_char s"

subsection \<open>\<open>convert_pmg_kpts\<close>\<close>

text \<open>Lines 77 to 89: the generator that the key \<open>k\<close> selects, applied to its value.\<close>

definition scheme ::
  "('at, 'st, 'kp) pymatgen \<Rightarrow> 'st \<Rightarrow> bool \<Rightarrow> string \<Rightarrow> pval \<Rightarrow> error + Kpoints" where
  "scheme L struct force_gamma k v =
     (if k = ''kppvol'' then propagate (automatic_density_by_vol L struct v force_gamma)
      else if k = ''kppa'' then propagate (automatic_density L struct v force_gamma)
      else if k = ''length_densities'' then
        propagate (automatic_density_by_lengths L struct v force_gamma)
      else Inl UnsupportedScheme)"

text \<open>Lines 91 to 98: the new value of \<open>max_pmg_kpts\<close>.\<close>

definition update_max :: "Kpoints option \<Rightarrow> Kpoints \<Rightarrow> Kpoints" where
  "update_max max_pmg_kpts pmg_kpts =
     (case max_pmg_kpts of
        None \<Rightarrow> pmg_kpts
      | Some m \<Rightarrow> if np_prod (kpts0 pmg_kpts) \<ge> np_prod (kpts0 m) then pmg_kpts else m)"

text \<open>
  Lines 76 to 98: the loop over the items of the mapping, with \<open>max_pmg_kpts\<close> as
  its state. The items are those of the mapping the function received: rebinding
  the name \<open>pmg_kpts\<close> in the body does not change what is iterated.
\<close>

fun density_loop ::
  "('at, 'st, 'kp) pymatgen \<Rightarrow> 'st \<Rightarrow> bool \<Rightarrow> PmgKpts \<Rightarrow> Kpoints option
     \<Rightarrow> error + Kpoints option" where
  "density_loop L struct force_gamma [] max_pmg_kpts = Inr max_pmg_kpts"
| "density_loop L struct force_gamma ((k, v) # items) max_pmg_kpts =
     (case scheme L struct force_gamma k v of
        Inl e \<Rightarrow> Inl e
      | Inr pmg_kpts \<Rightarrow>
          density_loop L struct force_gamma items (Some (update_max max_pmg_kpts pmg_kpts)))"

text \<open>Lines 63 to 72: the branch taken when \<open>pmg_kpts.get("line_density")\<close> is true.\<close>

definition line_mode ::
  "('at, 'st, 'kp) pymatgen \<Rightarrow> 'st \<Rightarrow> PmgKpts \<Rightarrow> error + (kpts_result \<times> bool)" where
  "line_mode L struct pmg_kpts =
     (case propagate
             (HighSymmKpath L struct ''latimer_munro'' (np_any (site_magmom L struct))) of
        Inl e \<Rightarrow> Inl e
      | Inr kpath \<Rightarrow>
          (case dict_getitem pmg_kpts ''line_density'' of
             Inl e \<Rightarrow> Inl e
           | Inr line_density \<Rightarrow>
               (case propagate (get_kpoints L kpath line_density True) of
                  Inl e \<Rightarrow> Inl e
                | Inr (kpts, labels) \<Rightarrow>
                    (case np_stack kpts of
                       Inl e \<Rightarrow> Inl e
                     | Inr stacked \<Rightarrow> Inr (KPath stacked, False)))))"

text \<open>Lines 75 to 101: the other branch.\<close>

definition density_mode ::
  "('at, 'st, 'kp) pymatgen \<Rightarrow> 'st \<Rightarrow> bool \<Rightarrow> PmgKpts \<Rightarrow> error + (kpts_result \<times> bool)" where
  "density_mode L struct force_gamma pmg_kpts =
     (case density_loop L struct force_gamma pmg_kpts None of
        Inl e \<Rightarrow> Inl e
      | Inr None \<Rightarrow> Inl UnsetBest
      | Inr (Some max_pmg_kpts) \<Rightarrow>
          Inr (KGrid (map int_of (kpts0 max_pmg_kpts)),
               lower (style_name max_pmg_kpts) = ''gamma''))"

definition convert_pmg_kpts ::
  "('at, 'st, 'kp) pymatgen \<Rightarrow> PmgKpts \<Rightarrow> 'at \<Rightarrow> bool \<Rightarrow> error + (kpts_result \<times> bool)" where
  "convert_pmg_kpts L pmg_kpts input_atoms force_gamma =
     (let struct = get_structure L input_atoms
      in if truthy (dict_get pmg_kpts ''line_density'')
         then line_mode L struct pmg_kpts
         else density_mode L struct force_gamma pmg_kpts)"

subsection \<open>\<open>kspacing_to_grid\<close>\<close>

text \<open>
  An ASE \<open>Atoms\<close> object, as far as \<open>kspacing_to_grid\<close> reads it: the rows of
  \<open>atoms.cell.reciprocal()\<close> and the flags \<open>atoms.pbc\<close>. ASE keeps three of each.
\<close>

record atoms =
  cell_reciprocal :: "vec3 list"
  pbc :: "bool list"


text \<open>\<open>np.linalg.norm(m, axis=1)\<close>: the Euclidean norm of each row.\<close>

definition euclid :: "vec3 \<Rightarrow> real" where
  "euclid v = (case v of (x, y, z) \<Rightarrow> sqrt (x * x + y * y + z * z))"

definition linalg_norm_rows :: "vec3 list \<Rightarrow> real list" where
  "linalg_norm_rows m = map euclid m"

text \<open>
  A value of numpy's \<open>float64\<close>: a finite number, an infinity of either sign, or
  \<open>nan\<close>.
\<close>

datatype float64 = Finite real | Infinite | NaN

text \<open>
  Rounding of a real number to binary64, to the nearest representable number and to
  the even one of two nearest. \<open>quantum_exponent x\<close> is the exponent of the spacing
  of the representable numbers around \<open>x\<close>: 52 below the exponent of \<open>x\<close>, which is
  at least \<open>-1022\<close> (below \<open>2 ^ -1022\<close> the numbers are subnormal). A result of
  magnitude \<open>2 ^ 1024\<close> or more is an infinity.
\<close>

definition round_half_even :: "real \<Rightarrow> int" where
  "round_half_even m =
     (let f = \<lfloor>m\<rfloor>; d = m - of_int f
      in if d < 1 / 2 then f else if 1 / 2 < d then f + 1 else if even f then f else f + 1)"

definition quantum_exponent :: "real \<Rightarrow> int" where
  "quantum_exponent x = max (bitlen \<lfloor>\<bar>x\<bar> * 2 ^ 1022\<rfloor> - 1023) (- 1022) - 52"

definition round_binary64 :: "real \<Rightarrow> float64" where
  "round_binary64 x =
     (let u = 2 powi quantum_exponent x; r = of_int (round_half_even (x / u)) * u
      in if \<bar>r\<bar> < 2 ^ 1024 then Finite r else Infinite)"

text \<open>
  \<open>n / spacing\<close> for a \<open>float64\<close> \<open>n\<close> and a finite \<open>spacing\<close>: numpy divides by zero
  without an exception, giving \<open>nan\<close> for \<open>0 / 0\<close> and an infinity otherwise.
\<close>

definition truediv :: "real \<Rightarrow> real \<Rightarrow> float64" where
  "truediv n spacing =
     (if spacing = 0 then (if n = 0 then NaN else Infinite) else round_binary64 (n / spacing))"

text \<open>
  \<open>int(np.ceil(q))\<close>: the ceiling of a finite value is an integer that binary64
  holds, and \<open>int\<close> converts it exactly; \<open>int\<close> of an infinity raises
  \<open>OverflowError\<close>, \<open>int\<close> of \<open>nan\<close> raises \<open>ValueError\<close>.
\<close>

definition int_ceil :: "float64 \<Rightarrow> error + int" where
  "int_ceil q = (case q of Finite r \<Rightarrow> Inr \<lceil>r\<rceil> | Infinite \<Rightarrow> Inl NonFiniteToInt | NaN \<Rightarrow> Inl NonFiniteToInt)"

definition int_ceil_div :: "real \<Rightarrow> real \<Rightarrow> error + int" where
  "int_ceil_div n spacing = int_ceil (truediv n spacing)"

text \<open>Lines 129 to 131: the loop over \<open>enumerate(atoms.pbc)\<close>.\<close>

fun pbc_loop :: "(nat \<times> bool) list \<Rightarrow> int list \<Rightarrow> error + int list" where
  "pbc_loop [] kpoint_grid = Inr kpoint_grid"
| "pbc_loop ((i, p) # rest) kpoint_grid =
     (if \<not> p then
        (if i < length kpoint_grid then pbc_loop rest (kpoint_grid[i := 1])
         else Inl IndexError)
      else pbc_loop rest kpoint_grid)"

definition kspacing_to_grid :: "atoms \<Rightarrow> real \<Rightarrow> error + int list" where
  "kspacing_to_grid a spacing =
     (case linalg_norm_rows (cell_reciprocal a) of
        [n_x, n_y, n_z] \<Rightarrow>
          (case int_ceil_div n_x spacing of
             Inl e \<Rightarrow> Inl e
           | Inr c_x \<Rightarrow>
               (case int_ceil_div n_y spacing of
                  Inl e \<Rightarrow> Inl e
                | Inr c_y \<Rightarrow>
                    (case int_ceil_div n_z spacing of
                       Inl e \<Rightarrow> Inl e
                     | Inr c_z \<Rightarrow>
                         pbc_loop (enumerate 0 (pbc a)) [max 1 c_x, max 1 c_y, max 1 c_z])))
      | _ \<Rightarrow> Inl UnpackError)"

subsection \<open>Example inputs\<close>

text \<open>
  Three cells whose reciprocal rows have the norms 2, 2 and 4 (2, 2 and 0 for the
  last): periodic along every axis, a slab that is not periodic along the third, and
  a cell with a vanishing third row.
\<close>

definition cubic :: atoms where
  "cubic = \<lparr>cell_reciprocal = [(2, 0, 0), (0, 2, 0), (0, 0, 4)], pbc = [True, True, True]\<rparr>"



text \<open>
  A stand-in for pymatgen on which every call returns: the generators give fixed
  meshes (two of them with the same number of points, 64), the path generator gives
  two points.
\<close>

definition demo_pymatgen :: "(unit, unit, unit) pymatgen" where
  "demo_pymatgen =
     \<lparr>get_structure = (\<lambda>_. ()),
      site_magmom = (\<lambda>_. None),
      HighSymmKpath = (\<lambda>_ _ _. Inr ()),
      get_kpoints = (\<lambda>_ _ _. Inr ([(0, 0, 0), (1/2, 0, 0)], [''GAMMA'', ''X''])),
      automatic_density_by_vol = (\<lambda>_ _ _. Inr \<lparr>kpts0 = [4, 4, 4], style_name = ''Gamma''\<rparr>),
      automatic_density = (\<lambda>_ _ _. Inr \<lparr>kpts0 = [2, 2, 2], style_name = ''Monkhorst''\<rparr>),
      automatic_density_by_lengths =
        (\<lambda>_ _ _. Inr \<lparr>kpts0 = [8, 4, 2], style_name = ''Monkhorst''\<rparr>)\<rparr>"

text \<open>
  Policies over it, and the candidates that the generators give for them, in the
  order of the items.
\<close>

definition three_schemes :: PmgKpts where
  "three_schemes = [(''kppvol'', Num 50), (''kppa'', Num 1000), (''length_densities'', Seq [10, 10, 10])]"

definition three_candidates :: "Kpoints list" where
  "three_candidates =
     [\<lparr>kpts0 = [4, 4, 4], style_name = ''Gamma''\<rparr>,
      \<lparr>kpts0 = [2, 2, 2], style_name = ''Monkhorst''\<rparr>,
      \<lparr>kpts0 = [8, 4, 2], style_name = ''Monkhorst''\<rparr>]"

definition two_schemes :: PmgKpts where
  "two_schemes = [(''length_densities'', Seq [10, 10, 10]), (''kppvol'', Num 50)]"

definition two_candidates :: "Kpoints list" where
  "two_candidates =
     [\<lparr>kpts0 = [8, 4, 2], style_name = ''Monkhorst''\<rparr>,
      \<lparr>kpts0 = [4, 4, 4], style_name = ''Gamma''\<rparr>]"

definition with_foo :: PmgKpts where
  "with_foo = [(''kppvol'', Num 50), (''foo'', Num 1), (''kppa'', Num 1000)]"

definition zero_line_density :: PmgKpts where
  "zero_line_density = [(''kppvol'', Num 50), (''line_density'', Num 0)]"

definition mixed_policy :: PmgKpts where
  "mixed_policy = [(''kppvol'', Num 50), (''line_density'', Num 20), (''foo'', Num 1)]"

text \<open>
  A cell whose reciprocal rows all have the norm that the literal \<open>0.1\<close> denotes, and
  the number that the literal \<open>0.02\<close> denotes.
\<close>

definition tenth :: atoms where
  "tenth =
     \<lparr>cell_reciprocal =
        [(3602879701896397 / 36028797018963968, 0, 0),
         (0, 3602879701896397 / 36028797018963968, 0),
         (0, 0, 3602879701896397 / 36028797018963968)],
      pbc = [True, True, True]\<rparr>"

definition fiftieth :: real where
  "fiftieth = 5764607523034235 / 288230376151711744"

text \<open>A positive spacing so small that a quotient by it overflows.\<close>

definition tiny :: real where
  "tiny = 1 / 2 ^ 1023"

text \<open>
  A stand-in for pymatgen whose atom-density generator returns a mesh of 10033222835
  points along each axis, as for \<open>kppa = 1e30\<close>, next to a mesh of 7 points along each
  axis from the volume-density generator; and the policy that asks for both.
\<close>

definition overflow_pymatgen :: "(unit, unit, unit) pymatgen" where
  "overflow_pymatgen =
     \<lparr>get_structure = (\<lambda>_. ()),
      site_magmom = (\<lambda>_. None),
      HighSymmKpath = (\<lambda>_ _ _. Inr ()),
      get_kpoints = (\<lambda>_ _ _. Inr ([(0, 0, 0), (1/2, 0, 0)], [''GAMMA'', ''X''])),
      automatic_density_by_vol = (\<lambda>_ _ _. Inr \<lparr>kpts0 = [7, 7, 7], style_name = ''Monkhorst''\<rparr>),
      automatic_density =
        (\<lambda>_ _ _. Inr \<lparr>kpts0 = [10033222835, 10033222835, 10033222835],
                      style_name = ''Monkhorst''\<rparr>),
      automatic_density_by_lengths =
        (\<lambda>_ _ _. Inr \<lparr>kpts0 = [8, 4, 2], style_name = ''Monkhorst''\<rparr>)\<rparr>"

definition overflow_policy :: PmgKpts where
  "overflow_policy = [(''kppa'', Num 1000000000000000019884624838656), (''kppvol'', Num 50)]"

section \<open>Binary64 division\<close>

text \<open>
  The exponent of the spacing follows from bounds on the number: for a number of
  magnitude in \<open>[2 ^ e, 2 ^ (e + 1))\<close> with \<open>e\<close> from \<open>-1022\<close> on it is \<open>e - 52\<close>, and
  below \<open>2 ^ -1022\<close> it is \<open>-1074\<close>.
\<close>

lemma bitlen_eqI:
  assumes "2 ^ k \<le> n" and "n < 2 ^ (k + 1)"
  shows "bitlen n = int k + 1"
proof -
  have "(0::int) < 2 ^ k"
    by simp
  with assms(1) have pos: "0 < n"
    by linarith
  from bitlen_bounds [OF pos] have lo: "2 ^ nat (bitlen n - 1) \<le> n" and hi: "n < 2 ^ nat (bitlen n)"
    by simp_all
  have "(2::int) ^ k < 2 ^ nat (bitlen n)"
    using assms(1) hi by linarith
  then have a: "k < nat (bitlen n)"
    by simp
  have "(2::int) ^ nat (bitlen n - 1) < 2 ^ (k + 1)"
    using lo assms(2) by linarith
  then have b: "nat (bitlen n - 1) < k + 1"
    by (simp only: power_strict_increasing_iff one_less_numeral_iff semiring_norm)
  from a b show ?thesis
    by linarith
qed

lemma quantum_exponent_normal:
  assumes "2 powi e \<le> \<bar>x\<bar>" and "\<bar>x\<bar> < 2 powi (e + 1)" and "- 1022 \<le> e"
  shows "quantum_exponent x = e - 52"
proof -
  define k where "k = nat (e + 1022)"
  have e: "e = int k - 1022"
    using assms(3) by (simp add: k_def)
  have c: "(2::real) ^ 1022 = 2 powi 1022"
    by (simp add: power_int_def)
  have "(2::real) powi e * 2 powi 1022 = 2 powi (e + 1022)"
    by (rule power_int_add [symmetric]) simp
  also have "\<dots> = 2 ^ k"
    using assms(3) unfolding k_def by (simp add: power_int_def)
  finally have p1: "(2::real) powi e * 2 ^ 1022 = 2 ^ k"
    unfolding c .
  have "(2::real) powi (e + 1) * 2 powi 1022 = 2 powi (e + 1022 + 1)"
    by (simp add: power_int_add)
  also have "\<dots> = 2 ^ (k + 1)"
  proof -
    have "e + 1022 + 1 = int (k + 1)"
      using assms(3) by (simp add: k_def)
    then show ?thesis
      by (simp only: power_int_of_nat)
  qed
  finally have p2: "(2::real) powi (e + 1) * 2 ^ 1022 = 2 ^ (k + 1)"
    unfolding c .
  have "(2::real) ^ k \<le> \<bar>x\<bar> * 2 ^ 1022"
    unfolding p1 [symmetric] using assms(1) by (rule mult_right_mono) simp
  then have lo: "(2::int) ^ k \<le> \<lfloor>\<bar>x\<bar> * 2 ^ 1022\<rfloor>"
    by (simp only: le_floor_iff of_int_power of_int_numeral)
  have "\<bar>x\<bar> * 2 ^ 1022 < (2::real) ^ (k + 1)"
    unfolding p2 [symmetric] using assms(2) by (rule mult_strict_right_mono) simp
  then have hi: "\<lfloor>\<bar>x\<bar> * 2 ^ 1022\<rfloor> < (2::int) ^ (k + 1)"
    by (simp only: floor_less_iff of_int_power of_int_numeral)
  from bitlen_eqI [OF lo hi] show ?thesis
    unfolding quantum_exponent_def e by simp
qed

lemma quantum_exponent_subnormal:
  assumes "\<bar>x\<bar> < 2 powi (- 1022)"
  shows "quantum_exponent x = - 1074"
proof -
  have "\<bar>x\<bar> * 2 ^ 1022 < 1"
    using assms by (simp add: power_int_def field_simps)
  then have "\<lfloor>\<bar>x\<bar> * 2 ^ 1022\<rfloor> = 0"
    by (simp add: floor_eq_iff)
  then show ?thesis
    by (simp add: quantum_exponent_def)
qed








lemma truediv_tenth_fiftieth:
  "truediv (3602879701896397 / 36028797018963968) fiftieth = Finite 5"
proof -
  let ?q = "28823037615171176 / 5764607523034235 :: real"
  have q: "quantum_exponent ?q = 2 - 52"
    by (rule quantum_exponent_normal) (simp_all add: power_int_def)
  have "round_binary64 ?q = Finite 5"
    unfolding round_binary64_def q
    by (simp add: power_int_def power_divide round_half_even_def Let_def)
  then show ?thesis
    by (simp add: truediv_def fiftieth_def)
qed

lemma tenth_over_fiftieth_real:
  "\<lceil>(3602879701896397 / 36028797018963968) / fiftieth\<rceil> = 6"
  by (simp add: fiftieth_def ceiling_eq_iff)

lemma truediv_overflow: "truediv 2 tiny = Infinite"
proof -
  have q: "quantum_exponent (2 ^ 1024) = 1024 - 52"
    by (rule quantum_exponent_normal) (simp_all add: power_int_def)
  have "round_binary64 (2 ^ 1024) = Infinite"
    unfolding round_binary64_def q
    by (simp add: power_int_def power_divide round_half_even_def)
  then show ?thesis
    by (simp add: truediv_def tiny_def)
qed

section \<open>Properties of \<open>kspacing_to_grid\<close>\<close>









text \<open>Evaluation on the example cells.\<close>

lemma euclid_axis:
  "euclid (x, 0, 0) = \<bar>x\<bar>" "euclid (0, x, 0) = \<bar>x\<bar>" "euclid (0, 0, x) = \<bar>x\<bar>"
  by (simp_all add: euclid_def)




text \<open>
  Rows of norm \<open>0.1\<close> with the spacing \<open>0.02\<close> give 5 points along each axis, and a
  spacing of \<open>2 ^ -1023\<close> makes the conversion of the first quotient raise.
\<close>

lemma kspacing_to_grid_tenth: "kspacing_to_grid tenth fiftieth = Inr [5, 5, 5]"
  by (simp add: kspacing_to_grid_def linalg_norm_rows_def int_ceil_div_def int_ceil_def
      tenth_def euclid_axis truediv_tenth_fiftieth)

lemma kspacing_to_grid_overflow: "kspacing_to_grid cubic tiny = Inl NonFiniteToInt"
  by (simp add: kspacing_to_grid_def linalg_norm_rows_def int_ceil_div_def int_ceil_def
      cubic_def euclid_axis truediv_overflow)







section \<open>Properties of \<open>convert_pmg_kpts\<close>\<close>

subsection \<open>The generator selected by a key\<close>

lemma scheme_Inr_key:
  "scheme L s fg k v = Inr c \<Longrightarrow> k \<in> {''kppvol'', ''kppa'', ''length_densities''}"
  by (simp add: scheme_def split: if_splits)

lemma scheme_unrecognized:
  "k \<notin> {''kppvol'', ''kppa'', ''length_densities''} \<Longrightarrow> scheme L s fg k v = Inl UnsupportedScheme"
  by (simp add: scheme_def)

lemma scheme_error:
  "scheme L s fg k v = Inl e \<Longrightarrow> e = UnsupportedScheme \<or> (\<exists>m. e = External m)"
  by (auto simp: scheme_def propagate_def split: if_splits sum.splits)

lemma scheme_line_density: "scheme L s fg ''line_density'' v = Inl UnsupportedScheme"
  by (simp add: scheme_def)

text \<open>Each of the three keys calls its own generator, on the structure, the value and the flag.\<close>

lemma scheme_kppvol:
  "scheme L s fg ''kppvol'' v = propagate (automatic_density_by_vol L s v fg)"
  by (simp add: scheme_def)

lemma scheme_kppa:
  "scheme L s fg ''kppa'' v = propagate (automatic_density L s v fg)"
  by (simp add: scheme_def)

lemma scheme_length_densities:
  "scheme L s fg ''length_densities'' v = propagate (automatic_density_by_lengths L s v fg)"
  by (simp add: scheme_def)

lemma propagate_Inr: "r = Inr c \<Longrightarrow> propagate r = Inr c"
  by (simp add: propagate_def)

subsection \<open>The loop\<close>

text \<open>
  An exception that leaves the loop is the one of line 89 or comes from pymatgen.
\<close>

lemma density_loop_error:
  "density_loop L s fg items b = Inl e \<Longrightarrow> e = UnsupportedScheme \<or> (\<exists>m. e = External m)"
proof (induction items arbitrary: b)
  case Nil
  then show ?case by simp
next
  case (Cons kv items)
  obtain k v where kv: "kv = (k, v)" by (cases kv)
  show ?case
  proof (cases "scheme L s fg k v")
    case (Inl e')
    from Cons.prems have "e = e'"
      unfolding kv by (simp add: Inl)
    with Inl have "scheme L s fg k v = Inl e" by simp
    then show ?thesis by (rule scheme_error)
  next
    case (Inr c)
    from Cons.prems have "density_loop L s fg items (Some (update_max b c)) = Inl e"
      unfolding kv by (simp add: Inr)
    then show ?thesis by (rule Cons.IH)
  qed
qed

text \<open>
  When every item has a candidate, the loop folds \<open>update_max\<close> over the
  candidates; when the loop returns, every item had one.
\<close>

lemma density_loop_candidates:
  "list_all2 (\<lambda>kv c. scheme L s fg (fst kv) (snd kv) = Inr c) items cands \<Longrightarrow>
   density_loop L s fg items b = Inr (foldl (\<lambda>m c. Some (update_max m c)) b cands)"
  by (induction items cands arbitrary: b rule: list_all2_induct) auto

lemma density_loop_Inr:
  "density_loop L s fg items b = Inr best \<Longrightarrow>
   \<exists>cands. list_all2 (\<lambda>kv c. scheme L s fg (fst kv) (snd kv) = Inr c) items cands"
proof (induction items arbitrary: b)
  case Nil
  then show ?case by simp
next
  case (Cons kv items)
  obtain k v where kv: "kv = (k, v)" by (cases kv)
  from Cons.prems kv obtain c where c: "scheme L s fg k v = Inr c"
    and rest: "density_loop L s fg items (Some (update_max b c)) = Inr best"
    by (auto split: sum.splits)
  from Cons.IH [OF rest] obtain cands
    where "list_all2 (\<lambda>kv c. scheme L s fg (fst kv) (snd kv) = Inr c) items cands" ..
  with c kv have "list_all2 (\<lambda>kv c. scheme L s fg (fst kv) (snd kv) = Inr c) (kv # items) (c # cands)"
    by simp
  then show ?case ..
qed

lemma ex_candidates:
  "\<forall>x\<in>set xs. \<exists>y. P x y \<Longrightarrow> \<exists>ys. list_all2 P xs ys"
proof (induction xs)
  case Nil
  then show ?case by simp
next
  case (Cons x xs)
  then obtain y ys where "P x y" "list_all2 P xs ys"
    by auto
  then have "list_all2 P (x # xs) (y # ys)"
    by simp
  then show ?case ..
qed

text \<open>
  The fold keeps the last candidate among those with the largest product.
\<close>

lemma fold_update_max_last_maximum:
  "cands \<noteq> [] \<Longrightarrow>
   \<exists>j<length cands. foldl (\<lambda>m c. Some (update_max m c)) None cands = Some (cands ! j) \<and>
     (\<forall>i<length cands. np_prod (kpts0 (cands ! i)) \<le> np_prod (kpts0 (cands ! j))) \<and>
     (\<forall>i<length cands. j < i \<longrightarrow> np_prod (kpts0 (cands ! i)) < np_prod (kpts0 (cands ! j)))"
proof (induction cands rule: rev_induct)
  case Nil
  then show ?case by simp
next
  case (snoc c cs)
  let ?f = "\<lambda>m c. Some (update_max m c)"
  let ?p = "\<lambda>x. np_prod (kpts0 x)"
  show ?case
  proof (cases "cs = []")
    case True
    then show ?thesis by (simp add: update_max_def)
  next
    case False
    from snoc.IH [OF False] obtain j where j: "j < length cs"
      and best: "foldl ?f None cs = Some (cs ! j)"
      and ge: "\<forall>i<length cs. ?p (cs ! i) \<le> ?p (cs ! j)"
      and gt: "\<forall>i<length cs. j < i \<longrightarrow> ?p (cs ! i) < ?p (cs ! j)"
      by blast
    show ?thesis
    proof (cases "?p c \<ge> ?p (cs ! j)")
      case True
      have "foldl ?f None (cs @ [c]) = Some ((cs @ [c]) ! length cs)"
        using best True by (simp add: update_max_def)
      moreover have "\<forall>i<length (cs @ [c]). ?p ((cs @ [c]) ! i) \<le> ?p ((cs @ [c]) ! length cs)"
        using ge True by (auto simp: nth_append less_Suc_eq intro: order_trans)
      moreover have "\<forall>i<length (cs @ [c]). length cs < i \<longrightarrow>
          ?p ((cs @ [c]) ! i) < ?p ((cs @ [c]) ! length cs)"
        by simp
      ultimately show ?thesis
        by (intro exI [of _ "length cs"]) simp
    next
      case False
      have "foldl ?f None (cs @ [c]) = Some ((cs @ [c]) ! j)"
        using best False j by (simp add: update_max_def nth_append)
      moreover have "\<forall>i<length (cs @ [c]). ?p ((cs @ [c]) ! i) \<le> ?p ((cs @ [c]) ! j)"
        using ge False j by (auto simp: nth_append less_Suc_eq)
      moreover have "\<forall>i<length (cs @ [c]). j < i \<longrightarrow> ?p ((cs @ [c]) ! i) < ?p ((cs @ [c]) ! j)"
        using gt False j by (auto simp: nth_append less_Suc_eq)
      ultimately show ?thesis
        using j by (intro exI [of _ j]) simp
    qed
  qed
qed

lemma density_loop_best_set:
  "density_loop L s fg items b = Inr best \<Longrightarrow> items \<noteq> [] \<or> b \<noteq> None \<Longrightarrow> best \<noteq> None"
proof (induction items arbitrary: b)
  case Nil
  then show ?case by simp
next
  case (Cons kv items)
  obtain k v where kv: "kv = (k, v)" by (cases kv)
  from Cons.prems(1) obtain c where
    "density_loop L s fg items (Some (update_max b c)) = Inr best"
    unfolding kv by (auto split: sum.splits)
  then show ?case
    by (rule Cons.IH) simp
qed

text \<open>
  An item whose key is none of the three raises, once the recognised items before
  it have given their candidates.
\<close>

lemma density_loop_unsupported:
  assumes "k \<notin> {''kppvol'', ''kppa'', ''length_densities''}"
    and "\<forall>kv\<in>set pre. fst kv \<in> {''kppvol'', ''kppa'', ''length_densities''} \<longrightarrow>
           (\<exists>c. scheme L s fg (fst kv) (snd kv) = Inr c)"
  shows "density_loop L s fg (pre @ (k, v) # post) b = Inl UnsupportedScheme"
  using assms(2)
proof (induction pre arbitrary: b)
  case Nil
  show ?case
    by (simp add: scheme_unrecognized [OF assms(1)])
next
  case (Cons kv pre)
  obtain k' v' where kv: "kv = (k', v')" by (cases kv)
  show ?case
  proof (cases "k' \<in> {''kppvol'', ''kppa'', ''length_densities''}")
    case True
    with Cons.prems kv obtain c where c: "scheme L s fg k' v' = Inr c"
      by fastforce
    have "density_loop L s fg (pre @ (k, v) # post) (Some (update_max b c)) = Inl UnsupportedScheme"
      using Cons.prems by (intro Cons.IH) simp
    then show ?thesis
      unfolding kv by (simp add: c)
  next
    case False
    then have "scheme L s fg k' v' = Inl UnsupportedScheme"
      by (rule scheme_unrecognized)
    then show ?thesis
      unfolding kv by simp
  qed
qed

subsection \<open>The two branches\<close>

lemma generated_not_line_density:
  assumes "list_all2 (\<lambda>kv c. scheme L s fg (fst kv) (snd kv) = Inr c) items cands"
  shows "dict_get items ''line_density'' = None"
proof -
  have ne: "fst kv \<noteq> ''line_density''" if "kv \<in> set items" for kv
  proof
    assume eq: "fst kv = ''line_density''"
    from that obtain i where i: "i < length items" "kv = items ! i"
      by (auto simp: in_set_conv_nth)
    with assms have "scheme L s fg (fst kv) (snd kv) = Inr (cands ! i)"
      by (simp add: list_all2_conv_all_nth)
    then show False
      unfolding eq by (simp only: scheme_line_density sum.distinct)
  qed
  have "''line_density'' \<notin> fst ` set items"
  proof
    assume "''line_density'' \<in> fst ` set items"
    then obtain kv where kv: "''line_density'' = fst kv" "kv \<in> set items"
      by (rule imageE)
    from ne [OF kv(2)] kv(1) show False
      by simp
  qed
  then show ?thesis
    unfolding dict_get_def map_of_eq_None_iff .
qed

lemma int_of_map: "map int_of xs = xs"
  by (induction xs) (simp_all add: int_of_def)

lemma convert_pmg_kpts_running_best:
  assumes "list_all2 (\<lambda>kv c. scheme L (get_structure L input_atoms) force_gamma (fst kv) (snd kv) = Inr c)
             pmg_kpts cands"
    and "cands \<noteq> []"
  shows "\<exists>j<length cands.
     density_loop L (get_structure L input_atoms) force_gamma pmg_kpts None = Inr (Some (cands ! j)) \<and>
     convert_pmg_kpts L pmg_kpts input_atoms force_gamma =
       Inr (KGrid (kpts0 (cands ! j)), lower (style_name (cands ! j)) = ''gamma'') \<and>
     (\<forall>i<length cands. np_prod (kpts0 (cands ! i)) \<le> np_prod (kpts0 (cands ! j))) \<and>
     (\<forall>i<length cands. j < i \<longrightarrow> np_prod (kpts0 (cands ! i)) < np_prod (kpts0 (cands ! j)))"
proof -
  let ?s = "get_structure L input_atoms"
  from fold_update_max_last_maximum [OF assms(2)] obtain j where j: "j < length cands"
    and best: "foldl (\<lambda>m c. Some (update_max m c)) None cands = Some (cands ! j)"
    and ge: "\<forall>i<length cands. np_prod (kpts0 (cands ! i)) \<le> np_prod (kpts0 (cands ! j))"
    and gt: "\<forall>i<length cands. j < i \<longrightarrow> np_prod (kpts0 (cands ! i)) < np_prod (kpts0 (cands ! j))"
    by blast
  have loop: "density_loop L ?s force_gamma pmg_kpts None = Inr (Some (cands ! j))"
    using density_loop_candidates [OF assms(1)] best by simp
  have "dict_get pmg_kpts ''line_density'' = None"
    using assms(1) by (rule generated_not_line_density)
  then have "convert_pmg_kpts L pmg_kpts input_atoms force_gamma =
      Inr (KGrid (kpts0 (cands ! j)), lower (style_name (cands ! j)) = ''gamma'')"
    using loop by (simp add: convert_pmg_kpts_def density_mode_def int_of_map)
  with j loop ge gt show ?thesis by blast
qed

lemma line_mode_error: "line_mode L s p = Inl e \<Longrightarrow> e \<noteq> UnsetBest"
  by (auto simp: line_mode_def propagate_def dict_getitem_def np_stack_def
      split: sum.splits option.splits if_splits)

lemma density_mode_unset:
  assumes "density_mode L s fg p = Inl UnsetBest"
  shows "p = []"
proof (cases "density_loop L s fg p None")
  case (Inl e)
  with assms have "e = UnsetBest"
    by (simp add: density_mode_def)
  with density_loop_error [OF Inl] show ?thesis
    by simp
next
  case (Inr best)
  with assms have "best = None"
    by (simp add: density_mode_def split: option.splits)
  with density_loop_best_set [OF Inr] show ?thesis
    by blast
qed

subsection \<open>Lower case\<close>

lemma lower_char_g: "lower_char x = CHR ''g'' \<longleftrightarrow> x = CHR ''g'' \<or> x = CHR ''G''"
  by (simp add: lower_char_def)

lemma lower_char_a: "lower_char x = CHR ''a'' \<longleftrightarrow> x = CHR ''a'' \<or> x = CHR ''A''"
  by (simp add: lower_char_def)

lemma lower_char_m: "lower_char x = CHR ''m'' \<longleftrightarrow> x = CHR ''m'' \<or> x = CHR ''M''"
  by (simp add: lower_char_def)

lemma lower_eq_gamma:
  "lower s = ''gamma'' \<longleftrightarrow>
   list_all2 (\<lambda>x lu. x = fst lu \<or> x = snd lu) s (zip ''gamma'' ''GAMMA'')"
  unfolding lower_def
  by (simp add: map_eq_Cons_conv list_all2_Cons2 lower_char_g lower_char_a lower_char_m)

subsection \<open>Evaluation on the example inputs\<close>

lemmas demo_eval =
  convert_pmg_kpts_def density_mode_def line_mode_def dict_get_def dict_getitem_def scheme_def
  propagate_def update_max_def np_prod_def fits_int64_def int64_def np_stack_def np_any_def
  int_of_def lower_def lower_char_def demo_pymatgen_def

lemma three_schemes_candidates:
  "list_all2 (\<lambda>kv c. scheme demo_pymatgen (get_structure demo_pymatgen ()) False (fst kv) (snd kv) = Inr c)
     three_schemes three_candidates"
  by (simp add: three_schemes_def three_candidates_def scheme_def propagate_def demo_pymatgen_def)

lemma three_schemes_result:
  "convert_pmg_kpts demo_pymatgen three_schemes () False = Inr (KGrid [8, 4, 2], False)"
  by (simp add: demo_eval three_schemes_def)

lemma three_schemes_loop:
  "density_loop demo_pymatgen (get_structure demo_pymatgen ()) False three_schemes None =
     Inr (Some \<lparr>kpts0 = [8, 4, 2], style_name = ''Monkhorst''\<rparr>)"
  by (simp add: three_schemes_def scheme_def propagate_def update_max_def np_prod_def
      fits_int64_def int64_def demo_pymatgen_def)

subsection \<open>The claims\<close>

text \<open>
  While every entry and every product fits the signed 64-bit integer, \<open>np.prod\<close> is
  the product, and the function returns the densest candidate: when every item of
  the policy has a candidate and there are two or more of them, it returns the mesh
  and the centering of one candidate \<open>j\<close>; the product of that mesh is at least the
  product of every candidate's mesh, and strictly larger than the product of every
  candidate after \<open>j\<close>, so that among candidates of equal product the last one in the
  order of the mapping is returned.
\<close>

lemma np_prod_exact:
  assumes "list_all fits_int64 xs" and "fits_int64 (prod_list xs)"
  shows "np_prod xs = prod_list xs"
proof -
  from assms(2) have "int64 (prod_list xs) = prod_list xs"
    unfolding int64_def fits_int64_def by (simp add: mod_pos_pos_trivial)
  with assms(1) show ?thesis
    by (simp add: np_prod_def)
qed

lemma convert_pmg_kpts_densest_int64:
  assumes "list_all2 (\<lambda>kv c. scheme L (get_structure L input_atoms) force_gamma (fst kv) (snd kv) = Inr c)
             pmg_kpts cands"
    and "2 \<le> length cands"
    and "\<forall>c\<in>set cands. list_all fits_int64 (kpts0 c) \<and> fits_int64 (prod_list (kpts0 c))"
  shows "\<not> truthy (dict_get pmg_kpts ''line_density'') \<and>
     (\<exists>j<length cands.
        convert_pmg_kpts L pmg_kpts input_atoms force_gamma =
          Inr (KGrid (kpts0 (cands ! j)), lower (style_name (cands ! j)) = ''gamma'') \<and>
        (\<forall>i<length cands. prod_list (kpts0 (cands ! i)) \<le> prod_list (kpts0 (cands ! j))) \<and>
        (\<forall>i<length cands. j < i \<longrightarrow>
           prod_list (kpts0 (cands ! i)) < prod_list (kpts0 (cands ! j))))"
proof
  from generated_not_line_density [OF assms(1)]
  show "\<not> truthy (dict_get pmg_kpts ''line_density'')"
    by simp
  from assms(2) have "cands \<noteq> []" by auto
  have exact: "np_prod (kpts0 (cands ! i)) = prod_list (kpts0 (cands ! i))" if "i < length cands" for i
  proof -
    from that have "cands ! i \<in> set cands"
      by simp
    with assms(3) show ?thesis
      by (intro np_prod_exact) simp_all
  qed
  from convert_pmg_kpts_running_best [OF assms(1) \<open>cands \<noteq> []\<close>] obtain j where j: "j < length cands"
    and res: "convert_pmg_kpts L pmg_kpts input_atoms force_gamma =
          Inr (KGrid (kpts0 (cands ! j)), lower (style_name (cands ! j)) = ''gamma'')"
    and ge: "\<forall>i<length cands. np_prod (kpts0 (cands ! i)) \<le> np_prod (kpts0 (cands ! j))"
    and gt: "\<forall>i<length cands. j < i \<longrightarrow> np_prod (kpts0 (cands ! i)) < np_prod (kpts0 (cands ! j))"
    by blast
  from ge j have ge': "\<forall>i<length cands. prod_list (kpts0 (cands ! i)) \<le> prod_list (kpts0 (cands ! j))"
    by (simp add: exact)
  from gt j have gt': "\<forall>i<length cands. j < i \<longrightarrow>
      prod_list (kpts0 (cands ! i)) < prod_list (kpts0 (cands ! j))"
    by (simp add: exact)
  from j res ge' gt'
  show "\<exists>j<length cands.
        convert_pmg_kpts L pmg_kpts input_atoms force_gamma =
          Inr (KGrid (kpts0 (cands ! j)), lower (style_name (cands ! j)) = ''gamma'') \<and>
        (\<forall>i<length cands. prod_list (kpts0 (cands ! i)) \<le> prod_list (kpts0 (cands ! j))) \<and>
        (\<forall>i<length cands. j < i \<longrightarrow>
           prod_list (kpts0 (cands ! i)) < prod_list (kpts0 (cands ! j)))"
    by (intro exI [of _ j] conjI)
qed

lemma three_schemes_densest:
  "convert_pmg_kpts demo_pymatgen three_schemes () False = Inr (KGrid [8, 4, 2], False) \<and>
   (\<exists>j<length three_candidates.
      convert_pmg_kpts demo_pymatgen three_schemes () False =
        Inr (KGrid (kpts0 (three_candidates ! j)), lower (style_name (three_candidates ! j)) = ''gamma'') \<and>
      (\<forall>i<length three_candidates.
         prod_list (kpts0 (three_candidates ! i)) \<le> prod_list (kpts0 (three_candidates ! j))) \<and>
      (\<forall>i<length three_candidates. j < i \<longrightarrow>
         prod_list (kpts0 (three_candidates ! i)) < prod_list (kpts0 (three_candidates ! j))))"
proof -
  have h: "2 \<le> length three_candidates"
    by (simp add: three_candidates_def)
  have b: "\<forall>c\<in>set three_candidates. list_all fits_int64 (kpts0 c) \<and> fits_int64 (prod_list (kpts0 c))"
    by (simp add: three_candidates_def fits_int64_def)
  from convert_pmg_kpts_densest_int64 [OF three_schemes_candidates h b, THEN conjunct2]
    three_schemes_result
  show ?thesis by (intro conjI)
qed

text \<open>
  C1. The claim fails on the code once a product leaves the signed 64-bit integer.
  For the policy \<open>{"kppa": 1e30, "kppvol": 50}\<close> with the atom-density mesh of
  10033222835 points along each axis and the volume-density mesh of 7 points along
  each axis, \<open>np.prod\<close> of the first mesh wraps around to a negative number, the
  comparison of line 95 takes the second mesh for the denser one, and the function
  returns \<open>[7, 7, 7]\<close>, whose 343 points are fewer than those of the first candidate.
\<close>

theorem convert_pmg_kpts_densest_overflow:
  "scheme overflow_pymatgen (get_structure overflow_pymatgen ()) False ''kppa''
     (Num 1000000000000000019884624838656) =
     Inr \<lparr>kpts0 = [10033222835, 10033222835, 10033222835], style_name = ''Monkhorst''\<rparr> \<and>
   scheme overflow_pymatgen (get_structure overflow_pymatgen ()) False ''kppvol'' (Num 50) =
     Inr \<lparr>kpts0 = [7, 7, 7], style_name = ''Monkhorst''\<rparr> \<and>
   np_prod [10033222835, 10033222835, 10033222835] = - 6872588262415048789 \<and>
   np_prod [7, 7, 7] = 343 \<and>
   convert_pmg_kpts overflow_pymatgen overflow_policy () False = Inr (KGrid [7, 7, 7], False) \<and>
   prod_list [7, 7, 7] < (prod_list [10033222835, 10033222835, 10033222835] :: int)"
  by (simp add: convert_pmg_kpts_def density_mode_def dict_get_def scheme_def propagate_def
      update_max_def np_prod_def fits_int64_def int64_def int_of_def lower_def lower_char_def
      overflow_pymatgen_def overflow_policy_def)

text \<open>
  C2, as stated, fails: with \<open>line_density\<close> present but zero the function does not
  return the path that the line branch computes; it raises.
\<close>

theorem convert_pmg_kpts_line_density_zero:
  "dict_get [(''line_density'', Num 0)] ''line_density'' = Some (Num 0) \<and>
   convert_pmg_kpts demo_pymatgen [(''line_density'', Num 0)] () False = Inl UnsupportedScheme \<and>
   line_mode demo_pymatgen () [(''line_density'', Num 0)] =
     Inr (KPath [(0, 0, 0), (1/2, 0, 0)], False)"
  by (simp add: demo_eval)

text \<open>
  C2, amended. When \<open>line_density\<close> maps to a true value (a float other than zero)
  and the path generator returns a non-empty list of points, the function returns
  these points and the flag \<open>False\<close>, whatever other keys the policy has; the result
  is the same with any three density generators in place of the given ones, also
  with generators that always raise: none of them is called.
\<close>

theorem convert_pmg_kpts_line_mode:
  assumes "dict_get pmg_kpts ''line_density'' = Some v" and "truthy (Some v)"
    and "HighSymmKpath L (get_structure L input_atoms) ''latimer_munro''
           (np_any (site_magmom L (get_structure L input_atoms))) = Inr kpath"
    and "get_kpoints L kpath v True = Inr (kpts, labels)"
    and "kpts \<noteq> []"
  shows "convert_pmg_kpts L pmg_kpts input_atoms force_gamma = Inr (KPath kpts, False) \<and>
         convert_pmg_kpts
           (L\<lparr>automatic_density_by_vol := f1, automatic_density := f2,
              automatic_density_by_lengths := f3\<rparr>)
           pmg_kpts input_atoms force_gamma = Inr (KPath kpts, False)"
  using assms
  by (simp add: convert_pmg_kpts_def line_mode_def dict_getitem_def dict_get_def propagate_def
      np_stack_def)

theorem convert_pmg_kpts_line_mode_witness:
  "dict_get mixed_policy ''line_density'' = Some (Num 20) \<and> truthy (Some (Num 20)) \<and>
   HighSymmKpath demo_pymatgen (get_structure demo_pymatgen ()) ''latimer_munro''
     (np_any (site_magmom demo_pymatgen (get_structure demo_pymatgen ()))) = Inr () \<and>
   get_kpoints demo_pymatgen () (Num 20) True = Inr ([(0, 0, 0), (1/2, 0, 0)], [''GAMMA'', ''X'']) \<and>
   [(0, 0, 0), (1/2, 0, 0)] \<noteq> ([] :: vec3 list) \<and>
   convert_pmg_kpts demo_pymatgen mixed_policy () True = Inr (KPath [(0, 0, 0), (1/2, 0, 0)], False) \<and>
   convert_pmg_kpts
     (demo_pymatgen\<lparr>automatic_density_by_vol := (\<lambda>_ _ _. Inl ''RuntimeError''),
        automatic_density := (\<lambda>_ _ _. Inl ''RuntimeError''),
        automatic_density_by_lengths := (\<lambda>_ _ _. Inl ''RuntimeError'')\<rparr>)
     mixed_policy () True = Inr (KPath [(0, 0, 0), (1/2, 0, 0)], False)"
proof -
  have h1: "dict_get mixed_policy ''line_density'' = Some (Num 20)"
    by (simp add: mixed_policy_def dict_get_def)
  have h2: "truthy (Some (Num 20))"
    by simp
  have h3: "HighSymmKpath demo_pymatgen (get_structure demo_pymatgen ()) ''latimer_munro''
     (np_any (site_magmom demo_pymatgen (get_structure demo_pymatgen ()))) = Inr ()"
    by (simp add: demo_pymatgen_def)
  have h4: "get_kpoints demo_pymatgen () (Num 20) True =
      Inr ([(0, 0, 0), (1/2, 0, 0)], [''GAMMA'', ''X''])"
    by (simp add: demo_pymatgen_def)
  have h5: "[(0, 0, 0), (1/2, 0, 0)] \<noteq> ([] :: vec3 list)"
    by simp
  note r = convert_pmg_kpts_line_mode [OF h1 h2 h3 h4 h5, of True
      "\<lambda>_ _ _. Inl ''RuntimeError''" "\<lambda>_ _ _. Inl ''RuntimeError''" "\<lambda>_ _ _. Inl ''RuntimeError''"]
  from r [THEN conjunct1] r [THEN conjunct2] h1 h2 h3 h4 h5 show ?thesis
    by (intro conjI)
qed

text \<open>
  C3. In density mode, a policy with an item whose key is none of \<open>kppvol\<close>,
  \<open>kppa\<close>, \<open>length_densities\<close> raises the exception of line 89, wherever the item
  stands (\<open>pre\<close> and \<open>post\<close> are arbitrary), provided the iteration reaches it: the
  generators of the recognised items before it return.
\<close>

theorem convert_pmg_kpts_unsupported:
  assumes "\<not> truthy (dict_get pmg_kpts ''line_density'')"
    and "pmg_kpts = pre @ (k, v) # post"
    and "k \<notin> {''kppvol'', ''kppa'', ''length_densities''}"
    and "\<forall>kv\<in>set pre. fst kv \<in> {''kppvol'', ''kppa'', ''length_densities''} \<longrightarrow>
           (\<exists>c. scheme L (get_structure L input_atoms) force_gamma (fst kv) (snd kv) = Inr c)"
  shows "convert_pmg_kpts L pmg_kpts input_atoms force_gamma = Inl UnsupportedScheme"
proof -
  have "density_loop L (get_structure L input_atoms) force_gamma pmg_kpts None = Inl UnsupportedScheme"
    unfolding assms(2) using assms(3,4) by (rule density_loop_unsupported)
  with assms(1) show ?thesis
    by (simp add: convert_pmg_kpts_def density_mode_def)
qed

theorem convert_pmg_kpts_unsupported_witness:
  "\<not> truthy (dict_get with_foo ''line_density'') \<and>
   with_foo = [(''kppvol'', Num 50)] @ (''foo'', Num 1) # [(''kppa'', Num 1000)] \<and>
   ''foo'' \<notin> {''kppvol'', ''kppa'', ''length_densities''} \<and>
   scheme demo_pymatgen (get_structure demo_pymatgen ()) False ''kppvol'' (Num 50) =
     Inr \<lparr>kpts0 = [4, 4, 4], style_name = ''Gamma''\<rparr> \<and>
   convert_pmg_kpts demo_pymatgen with_foo () False = Inl UnsupportedScheme"
proof -
  have h1: "\<not> truthy (dict_get with_foo ''line_density'')"
    by (simp add: with_foo_def dict_get_def)
  have h2: "with_foo = [(''kppvol'', Num 50)] @ (''foo'', Num 1) # [(''kppa'', Num 1000)]"
    by (simp add: with_foo_def)
  have h3: "''foo'' \<notin> {''kppvol'', ''kppa'', ''length_densities''}"
    by simp
  have h4: "\<forall>kv\<in>set [(''kppvol'', Num 50)]. fst kv \<in> {''kppvol'', ''kppa'', ''length_densities''} \<longrightarrow>
      (\<exists>c. scheme demo_pymatgen (get_structure demo_pymatgen ()) False (fst kv) (snd kv) = Inr c)"
    by (simp add: scheme_def propagate_def demo_pymatgen_def)
  have c: "scheme demo_pymatgen (get_structure demo_pymatgen ()) False ''kppvol'' (Num 50) =
      Inr \<lparr>kpts0 = [4, 4, 4], style_name = ''Gamma''\<rparr>"
    by (simp add: scheme_def propagate_def demo_pymatgen_def)
  from convert_pmg_kpts_unsupported [OF h1 h2 h3 h4] h1 h2 h3 c show ?thesis
    by (intro conjI)
qed

text \<open>
  C4. For a policy with one item, whose key is one of \<open>kppvol\<close>, \<open>kppa\<close>,
  \<open>length_densities\<close>, and for the candidate \<open>c\<close> that the generator of that key
  returns on the structure, the value of the key and \<open>force_gamma\<close>: the function
  returns the mesh of \<open>c\<close> (each entry through \<open>int\<close>) and a flag that is true exactly
  when the style name of \<open>c\<close> is \<open>gamma\<close> up to the case of each letter.
\<close>

theorem convert_pmg_kpts_single:
  assumes "(k = ''kppvol'' \<and>
            automatic_density_by_vol L (get_structure L input_atoms) v force_gamma = Inr c) \<or>
           (k = ''kppa'' \<and>
            automatic_density L (get_structure L input_atoms) v force_gamma = Inr c) \<or>
           (k = ''length_densities'' \<and>
            automatic_density_by_lengths L (get_structure L input_atoms) v force_gamma = Inr c)"
  shows "\<exists>g gamma. convert_pmg_kpts L [(k, v)] input_atoms force_gamma = Inr (KGrid g, gamma) \<and>
           g = map int_of (kpts0 c) \<and> g = kpts0 c \<and>
           (gamma \<longleftrightarrow> lower (style_name c) = ''gamma'') \<and>
           (gamma \<longleftrightarrow>
              list_all2 (\<lambda>x lu. x = fst lu \<or> x = snd lu) (style_name c) (zip ''gamma'' ''GAMMA''))"
proof -
  let ?s = "get_structure L input_atoms"
  from assms have sc: "scheme L ?s force_gamma k v = Inr c"
  proof (elim disjE conjE)
    assume "k = ''kppvol''" and "automatic_density_by_vol L ?s v force_gamma = Inr c"
    then show ?thesis
      by (simp only: scheme_kppvol propagate_Inr)
  next
    assume "k = ''kppa''" and "automatic_density L ?s v force_gamma = Inr c"
    then show ?thesis
      by (simp only: scheme_kppa propagate_Inr)
  next
    assume "k = ''length_densities''" and "automatic_density_by_lengths L ?s v force_gamma = Inr c"
    then show ?thesis
      by (simp only: scheme_length_densities propagate_Inr)
  qed
  have "list_all2 (\<lambda>kv c. scheme L ?s force_gamma (fst kv) (snd kv) = Inr c) [(k, v)] [c]"
    using sc by simp
  then have "dict_get [(k, v)] ''line_density'' = None"
    by (rule generated_not_line_density)
  then have e: "convert_pmg_kpts L [(k, v)] input_atoms force_gamma =
      Inr (KGrid (kpts0 c), lower (style_name c) = ''gamma'')"
    using sc by (simp add: convert_pmg_kpts_def density_mode_def update_max_def int_of_map)
  show ?thesis
  proof (intro exI conjI)
    show "convert_pmg_kpts L [(k, v)] input_atoms force_gamma =
        Inr (KGrid (kpts0 c), lower (style_name c) = ''gamma'')"
      by (rule e)
    show "kpts0 c = map int_of (kpts0 c)"
      by (rule int_of_map [symmetric])
    show "kpts0 c = kpts0 c" ..
    show "(lower (style_name c) = ''gamma'') = (lower (style_name c) = ''gamma'')" ..
    show "(lower (style_name c) = ''gamma'') =
        list_all2 (\<lambda>x lu. x = fst lu \<or> x = snd lu) (style_name c) (zip ''gamma'' ''GAMMA'')"
      by (rule lower_eq_gamma)
  qed
qed

theorem convert_pmg_kpts_single_witness:
  "automatic_density_by_vol demo_pymatgen (get_structure demo_pymatgen ()) (Num 50) False =
     Inr \<lparr>kpts0 = [4, 4, 4], style_name = ''Gamma''\<rparr> \<and>
   convert_pmg_kpts demo_pymatgen [(''kppvol'', Num 50)] () False = Inr (KGrid [4, 4, 4], True)"
proof -
  have h: "automatic_density_by_vol demo_pymatgen (get_structure demo_pymatgen ()) (Num 50) False =
      Inr \<lparr>kpts0 = [4, 4, 4], style_name = ''Gamma''\<rparr>"
    by (simp add: demo_pymatgen_def)
  from h have d: "(''kppvol'' = ''kppvol'' \<and>
      automatic_density_by_vol demo_pymatgen (get_structure demo_pymatgen ()) (Num 50) False =
        Inr \<lparr>kpts0 = [4, 4, 4], style_name = ''Gamma''\<rparr>) \<or>
     (''kppvol'' = ''kppa'' \<and>
      automatic_density demo_pymatgen (get_structure demo_pymatgen ()) (Num 50) False =
        Inr \<lparr>kpts0 = [4, 4, 4], style_name = ''Gamma''\<rparr>) \<or>
     (''kppvol'' = ''length_densities'' \<and>
      automatic_density_by_lengths demo_pymatgen (get_structure demo_pymatgen ()) (Num 50) False =
        Inr \<lparr>kpts0 = [4, 4, 4], style_name = ''Gamma''\<rparr>)"
    by (intro disjI1 conjI refl)
  from convert_pmg_kpts_single [OF d]
  have "convert_pmg_kpts demo_pymatgen [(''kppvol'', Num 50)] () False = Inr (KGrid [4, 4, 4], True)"
    by (auto simp: lower_def lower_char_def)
  with h show ?thesis
    by (intro conjI)
qed

text \<open>
  C7. When the loop has run through a policy that holds a recognised key, the
  running best is set and the function returns its mesh and flag; the loop does run
  through when every item has a candidate. For the empty policy the loop returns
  with the best unset and the function fails at line 100. That failure occurs for
  no other policy.
\<close>

theorem convert_pmg_kpts_best_set:
  "(density_loop L (get_structure L input_atoms) force_gamma pmg_kpts None = Inr best \<and>
    (\<exists>kv\<in>set pmg_kpts. fst kv \<in> {''kppvol'', ''kppa'', ''length_densities''}) \<longrightarrow>
      (\<exists>m. best = Some m \<and>
         convert_pmg_kpts L pmg_kpts input_atoms force_gamma =
           Inr (KGrid (map int_of (kpts0 m)), lower (style_name m) = ''gamma''))) \<and>
   ((\<forall>kv\<in>set pmg_kpts.
        \<exists>c. scheme L (get_structure L input_atoms) force_gamma (fst kv) (snd kv) = Inr c) \<and>
    pmg_kpts \<noteq> [] \<longrightarrow>
      (\<exists>m. density_loop L (get_structure L input_atoms) force_gamma pmg_kpts None = Inr (Some m))) \<and>
   density_loop L (get_structure L input_atoms) force_gamma [] None = Inr None \<and>
   convert_pmg_kpts L [] input_atoms force_gamma = Inl UnsetBest \<and>
   (convert_pmg_kpts L pmg_kpts input_atoms force_gamma = Inl UnsetBest \<longrightarrow> pmg_kpts = [])"
proof (intro conjI impI)
  let ?s = "get_structure L input_atoms"
  show "\<exists>m. best = Some m \<and>
         convert_pmg_kpts L pmg_kpts input_atoms force_gamma =
           Inr (KGrid (map int_of (kpts0 m)), lower (style_name m) = ''gamma'')"
    if h: "density_loop L ?s force_gamma pmg_kpts None = Inr best \<and>
      (\<exists>kv\<in>set pmg_kpts. fst kv \<in> {''kppvol'', ''kppa'', ''length_densities''})"
  proof -
    from h have loop: "density_loop L ?s force_gamma pmg_kpts None = Inr best" ..
    from h have "\<exists>kv\<in>set pmg_kpts. fst kv \<in> {''kppvol'', ''kppa'', ''length_densities''}" ..
    then obtain kv where "kv \<in> set pmg_kpts" ..
    then have "pmg_kpts \<noteq> []" by auto
    then have "best \<noteq> None"
      using density_loop_best_set [OF loop] by simp
    then obtain m where m: "best = Some m"
      by auto
    from density_loop_Inr [OF loop] obtain cands where
      "list_all2 (\<lambda>kv c. scheme L ?s force_gamma (fst kv) (snd kv) = Inr c) pmg_kpts cands" ..
    then have "dict_get pmg_kpts ''line_density'' = None"
      by (rule generated_not_line_density)
    then have "convert_pmg_kpts L pmg_kpts input_atoms force_gamma =
        Inr (KGrid (map int_of (kpts0 m)), lower (style_name m) = ''gamma'')"
      using loop m by (simp add: convert_pmg_kpts_def density_mode_def)
    with m show ?thesis by blast
  qed
  show "\<exists>m. density_loop L ?s force_gamma pmg_kpts None = Inr (Some m)"
    if h: "(\<forall>kv\<in>set pmg_kpts. \<exists>c. scheme L ?s force_gamma (fst kv) (snd kv) = Inr c) \<and>
      pmg_kpts \<noteq> []"
  proof -
    from h have "\<forall>kv\<in>set pmg_kpts. \<exists>c. scheme L ?s force_gamma (fst kv) (snd kv) = Inr c" ..
    then have "\<exists>cands.
        list_all2 (\<lambda>kv c. scheme L ?s force_gamma (fst kv) (snd kv) = Inr c) pmg_kpts cands"
      by (rule ex_candidates)
    then obtain cands where
      c: "list_all2 (\<lambda>kv c. scheme L ?s force_gamma (fst kv) (snd kv) = Inr c) pmg_kpts cands" ..
    from h have "pmg_kpts \<noteq> []" ..
    with c have "cands \<noteq> []"
      by (auto simp only: list_all2_Nil2)
    from convert_pmg_kpts_running_best [OF c this] show ?thesis by blast
  qed
  show "density_loop L ?s force_gamma [] None = Inr None"
    by simp
  show "convert_pmg_kpts L [] input_atoms force_gamma = Inl UnsetBest"
    by (simp add: convert_pmg_kpts_def density_mode_def dict_get_def)
  show "pmg_kpts = []" if h: "convert_pmg_kpts L pmg_kpts input_atoms force_gamma = Inl UnsetBest"
  proof (cases "truthy (dict_get pmg_kpts ''line_density'')")
    case True
    with h have "line_mode L ?s pmg_kpts = Inl UnsetBest"
      by (simp add: convert_pmg_kpts_def)
    from line_mode_error [OF this] show ?thesis
      by simp
  next
    case False
    with h have "density_mode L ?s force_gamma pmg_kpts = Inl UnsetBest"
      by (simp add: convert_pmg_kpts_def)
    then show ?thesis by (rule density_mode_unset)
  qed
qed

theorem convert_pmg_kpts_best_set_witness:
  "density_loop demo_pymatgen (get_structure demo_pymatgen ()) False three_schemes None =
     Inr (Some \<lparr>kpts0 = [8, 4, 2], style_name = ''Monkhorst''\<rparr>) \<and>
   (\<exists>kv\<in>set three_schemes. fst kv \<in> {''kppvol'', ''kppa'', ''length_densities''}) \<and>
   (\<exists>m. Some \<lparr>kpts0 = [8, 4, 2], style_name = ''Monkhorst''\<rparr> = Some m \<and>
      convert_pmg_kpts demo_pymatgen three_schemes () False =
        Inr (KGrid (map int_of (kpts0 m)), lower (style_name m) = ''gamma'')) \<and>
   convert_pmg_kpts demo_pymatgen [] () False = Inl UnsetBest \<and>
   ([] :: PmgKpts) = []"
proof -
  have h1: "density_loop demo_pymatgen (get_structure demo_pymatgen ()) False three_schemes None =
      Inr (Some \<lparr>kpts0 = [8, 4, 2], style_name = ''Monkhorst''\<rparr>)"
    by (rule three_schemes_loop)
  have h2: "\<exists>kv\<in>set three_schemes. fst kv \<in> {''kppvol'', ''kppa'', ''length_densities''}"
    by (simp add: three_schemes_def)
  note a = convert_pmg_kpts_best_set [of demo_pymatgen "()" False three_schemes
      "Some \<lparr>kpts0 = [8, 4, 2], style_name = ''Monkhorst''\<rparr>"]
  note b = convert_pmg_kpts_best_set [of demo_pymatgen "()" False "[]" None]
  have c1: "\<exists>m. Some \<lparr>kpts0 = [8, 4, 2], style_name = ''Monkhorst''\<rparr> = Some m \<and>
      convert_pmg_kpts demo_pymatgen three_schemes () False =
        Inr (KGrid (map int_of (kpts0 m)), lower (style_name m) = ''gamma'')"
    using a [THEN conjunct1, rule_format, OF conjI, OF h1 h2] .
  have c2: "convert_pmg_kpts demo_pymatgen [] () False = Inl UnsetBest"
    using b by (elim conjE)
  have c3: "([] :: PmgKpts) = []"
    using b [THEN conjunct2, THEN conjunct2, THEN conjunct2, THEN conjunct2, rule_format, OF c2] .
  from h1 h2 c1 c2 c3 show ?thesis
    by (intro conjI)
qed

text \<open>
  C9. When \<open>line_density\<close> maps to a false value (a zero float), the function takes
  the density branch although the key is present; there the key \<open>line_density\<close>
  itself is not recognised, and the function raises the exception of line 89 (the
  generators of the recognised items being assumed to return).
\<close>

theorem convert_pmg_kpts_falsy_line_density:
  assumes "dict_get pmg_kpts ''line_density'' = Some v" and "\<not> truthy (Some v)"
    and "\<forall>kv\<in>set pmg_kpts. fst kv \<in> {''kppvol'', ''kppa'', ''length_densities''} \<longrightarrow>
           (\<exists>c. scheme L (get_structure L input_atoms) force_gamma (fst kv) (snd kv) = Inr c)"
  shows "convert_pmg_kpts L pmg_kpts input_atoms force_gamma =
           density_mode L (get_structure L input_atoms) force_gamma pmg_kpts \<and>
         convert_pmg_kpts L pmg_kpts input_atoms force_gamma = Inl UnsupportedScheme"
proof -
  let ?s = "get_structure L input_atoms"
  from assms(1) have "(''line_density'', v) \<in> set pmg_kpts"
    unfolding dict_get_def by (rule map_of_SomeD)
  then obtain pre post where split: "pmg_kpts = pre @ (''line_density'', v) # post"
    by (auto dest: split_list)
  have unrec: "''line_density'' \<notin> {''kppvol'', ''kppa'', ''length_densities''}"
    by simp
  have "\<forall>kv\<in>set pre. fst kv \<in> {''kppvol'', ''kppa'', ''length_densities''} \<longrightarrow>
          (\<exists>c. scheme L ?s force_gamma (fst kv) (snd kv) = Inr c)"
    using assms(3) unfolding split by simp
  with unrec have "density_loop L ?s force_gamma pmg_kpts None = Inl UnsupportedScheme"
    unfolding split by (rule density_loop_unsupported)
  then have dm: "density_mode L ?s force_gamma pmg_kpts = Inl UnsupportedScheme"
    by (simp add: density_mode_def)
  have "convert_pmg_kpts L pmg_kpts input_atoms force_gamma = density_mode L ?s force_gamma pmg_kpts"
    using assms(1,2) by (simp add: convert_pmg_kpts_def)
  with dm show ?thesis by simp
qed

theorem convert_pmg_kpts_falsy_line_density_witness:
  "dict_get zero_line_density ''line_density'' = Some (Num 0) \<and> \<not> truthy (Some (Num 0)) \<and>
   scheme demo_pymatgen (get_structure demo_pymatgen ()) True ''kppvol'' (Num 50) =
     Inr \<lparr>kpts0 = [4, 4, 4], style_name = ''Gamma''\<rparr> \<and>
   convert_pmg_kpts demo_pymatgen zero_line_density () True = Inl UnsupportedScheme \<and>
   line_mode demo_pymatgen () zero_line_density = Inr (KPath [(0, 0, 0), (1/2, 0, 0)], False)"
proof -
  have h1: "dict_get zero_line_density ''line_density'' = Some (Num 0)"
    by (simp add: zero_line_density_def dict_get_def)
  have h2: "\<not> truthy (Some (Num 0))"
    by simp
  have h3: "\<forall>kv\<in>set zero_line_density. fst kv \<in> {''kppvol'', ''kppa'', ''length_densities''} \<longrightarrow>
      (\<exists>c. scheme demo_pymatgen (get_structure demo_pymatgen ()) True (fst kv) (snd kv) = Inr c)"
    by (simp add: zero_line_density_def scheme_def propagate_def demo_pymatgen_def)
  have l: "line_mode demo_pymatgen () zero_line_density = Inr (KPath [(0, 0, 0), (1/2, 0, 0)], False)"
    by (simp add: demo_eval zero_line_density_def)
  have c: "scheme demo_pymatgen (get_structure demo_pymatgen ()) True ''kppvol'' (Num 50) =
      Inr \<lparr>kpts0 = [4, 4, 4], style_name = ''Gamma''\<rparr>"
    by (simp add: scheme_def propagate_def demo_pymatgen_def)
  from convert_pmg_kpts_falsy_line_density [OF h1 h2 h3, THEN conjunct2] h1 h2 c l show ?thesis
    by (intro conjI)
qed

text \<open>
  C10. When every item of the policy has a candidate and there is at least one, the
  function returns the whole mesh of one candidate \<open>j\<close>, the value of
  \<open>max_pmg_kpts\<close> after the loop, and the flag computed from the style of that same
  candidate.
\<close>

theorem convert_pmg_kpts_one_candidate:
  assumes "list_all2 (\<lambda>kv c. scheme L (get_structure L input_atoms) force_gamma (fst kv) (snd kv) = Inr c)
             pmg_kpts cands"
    and "cands \<noteq> []"
  shows "\<not> truthy (dict_get pmg_kpts ''line_density'') \<and>
     (\<exists>j<length cands.
        density_loop L (get_structure L input_atoms) force_gamma pmg_kpts None =
          Inr (Some (cands ! j)) \<and>
        convert_pmg_kpts L pmg_kpts input_atoms force_gamma =
          Inr (KGrid (kpts0 (cands ! j)), lower (style_name (cands ! j)) = ''gamma''))"
proof
  from generated_not_line_density [OF assms(1)]
  show "\<not> truthy (dict_get pmg_kpts ''line_density'')"
    by simp
  from convert_pmg_kpts_running_best [OF assms] obtain j where "j < length cands"
    and "density_loop L (get_structure L input_atoms) force_gamma pmg_kpts None = Inr (Some (cands ! j))"
    and "convert_pmg_kpts L pmg_kpts input_atoms force_gamma =
       Inr (KGrid (kpts0 (cands ! j)), lower (style_name (cands ! j)) = ''gamma'')"
    by blast
  then show "\<exists>j<length cands.
        density_loop L (get_structure L input_atoms) force_gamma pmg_kpts None =
          Inr (Some (cands ! j)) \<and>
        convert_pmg_kpts L pmg_kpts input_atoms force_gamma =
          Inr (KGrid (kpts0 (cands ! j)), lower (style_name (cands ! j)) = ''gamma'')"
    by blast
qed

theorem convert_pmg_kpts_one_candidate_witness:
  "list_all2 (\<lambda>kv c. scheme demo_pymatgen (get_structure demo_pymatgen ()) False (fst kv) (snd kv) = Inr c)
     two_schemes two_candidates \<and>
   two_candidates \<noteq> [] \<and>
   convert_pmg_kpts demo_pymatgen two_schemes () False = Inr (KGrid [4, 4, 4], True) \<and>
   (\<exists>j<length two_candidates.
      density_loop demo_pymatgen (get_structure demo_pymatgen ()) False two_schemes None =
        Inr (Some (two_candidates ! j)) \<and>
      convert_pmg_kpts demo_pymatgen two_schemes () False =
        Inr (KGrid (kpts0 (two_candidates ! j)), lower (style_name (two_candidates ! j)) = ''gamma''))"
proof -
  have h1: "list_all2
      (\<lambda>kv c. scheme demo_pymatgen (get_structure demo_pymatgen ()) False (fst kv) (snd kv) = Inr c)
      two_schemes two_candidates"
    by (simp add: two_schemes_def two_candidates_def scheme_def propagate_def demo_pymatgen_def)
  have h2: "two_candidates \<noteq> []"
    by (simp add: two_candidates_def)
  have e: "convert_pmg_kpts demo_pymatgen two_schemes () False = Inr (KGrid [4, 4, 4], True)"
    by (simp add: demo_eval two_schemes_def)
  from convert_pmg_kpts_one_candidate [OF h1 h2, THEN conjunct2] h1 h2 e show ?thesis
    by (intro conjI)
qed

end
